theory Spec2Isabelle
  imports Complex_Main "HOL-Library.Product_Lexorder" "HOL-Library.AList"
begin

section \<open>Python values and built-ins used by the estimator\<close>

text \<open>
  Exceptions of the source are values: every function that can raise returns
  \<open>error + 'a\<close>, with \<open>Inl\<close> the exception. A Python float is modelled by the
  real number it stands for; comparison, \<open>int()\<close> and \<open>round()\<close> are exact on it.
\<close>

datatype error = AssertionError | ValueError | IndexError | KeyError

text \<open>\<open>int(x)\<close> on a float truncates toward zero.\<close>

definition py_int :: "real \<Rightarrow> int" where
  "py_int x = (if 0 \<le> x then \<lfloor>x\<rfloor> else \<lceil>x\<rceil>)"

text \<open>\<open>round(x)\<close> rounds to the nearest integer, ties to the even one.\<close>

definition py_round :: "real \<Rightarrow> int" where
  "py_round x =
     (let f = \<lfloor>x\<rfloor>; d = x - of_int f
      in if d < 1 / 2 then f
         else if 1 / 2 < d then f + 1
         else if even f then f else f + 1)"

text \<open>The nearest hundredth of a real number, ties to even.\<close>

definition format_2f :: "real \<Rightarrow> real" where
  "format_2f x = of_int (py_round (x * 100)) / 100"

text \<open>
  The cost arithmetic of the source is float arithmetic: the machine rounds the
  result of every operation to a float. The four operations that the cost
  computation uses are parameters of the model, so that nothing is assumed of
  this rounding: \<open>m / n\<close> on two integers, \<open>x * y\<close> and \<open>x + y\<close> on two
  floats, and \<open>float('%.2f' % x)\<close>, the float written with two decimals and read
  back.
\<close>

record float_arith =
  float_div :: "int \<Rightarrow> int \<Rightarrow> real"
  float_mul :: "real \<Rightarrow> real \<Rightarrow> real"
  float_add :: "real \<Rightarrow> real \<Rightarrow> real"
  float_2f :: "real \<Rightarrow> real"

text \<open>
  The arithmetic without representation error, with which the scenarios are
  evaluated.
\<close>

definition exact_arith :: float_arith where
  "exact_arith =
     \<lparr>float_div = (\<lambda>m n. real_of_int m / real_of_int n),
      float_mul = (\<lambda>x y. x * y),
      float_add = (\<lambda>x y. x + y),
      float_2f = format_2f\<rparr>"

text \<open>
  An amount that was written with two decimals and read back is not changed by
  adding \<open>0.0\<close> to it and writing it with two decimals again.
\<close>

definition rounds_stably :: "float_arith \<Rightarrow> bool" where
  "rounds_stably a = (\<forall>x. float_2f a (float_add a 0 (float_2f a x)) = float_2f a x)"

text \<open>\<open>s.replace(',', '')\<close>.\<close>

definition remove_commas :: "string \<Rightarrow> string" where
  "remove_commas s = filter (\<lambda>c. c \<noteq> CHR '','') s"

definition is_space :: "char \<Rightarrow> bool" where
  "is_space c = (c \<in> set [CHR '' '', CHR 0x09, CHR 0x0A, CHR 0x0B, CHR 0x0C, CHR 0x0D])"

text \<open>\<open>s.strip()\<close>.\<close>

definition py_strip :: "string \<Rightarrow> string" where
  "py_strip s = rev (dropWhile is_space (rev (dropWhile is_space s)))"

definition digit_val :: "char \<Rightarrow> nat option" where
  "digit_val c =
     (let n = (of_char c :: nat) in if 48 \<le> n \<and> n \<le> 57 then Some (n - 48) else None)"

text \<open>
  The digits of a decimal literal: at least one digit, single underscores allowed
  between digits. The flag says whether the previous character was a digit.
\<close>

fun parse_digits :: "nat \<Rightarrow> bool \<Rightarrow> string \<Rightarrow> nat option" where
  "parse_digits acc prev [] = (if prev then Some acc else None)"
| "parse_digits acc prev (c # cs) =
     (if c = CHR ''_'' then
        (if prev \<and> cs \<noteq> [] then parse_digits acc False cs else None)
      else (case digit_val c of
              None \<Rightarrow> None
            | Some d \<Rightarrow> parse_digits (acc * 10 + d) True cs))"

text \<open>
  \<open>int(s)\<close> on a string: surrounding whitespace is dropped, one sign is allowed,
  anything else than a decimal literal raises ValueError.
\<close>

definition int_of_str :: "string \<Rightarrow> error + int" where
  "int_of_str s =
     (case py_strip s of
        [] \<Rightarrow> Inl ValueError
      | c # cs \<Rightarrow>
          if c = CHR ''-'' then
            (case parse_digits 0 False cs of
               None \<Rightarrow> Inl ValueError | Some n \<Rightarrow> Inr (- int n))
          else if c = CHR ''+'' then
            (case parse_digits 0 False cs of
               None \<Rightarrow> Inl ValueError | Some n \<Rightarrow> Inr (int n))
          else
            (case parse_digits 0 False (c # cs) of
               None \<Rightarrow> Inl ValueError | Some n \<Rightarrow> Inr (int n)))"

section \<open>utils.py\<close>

text \<open>
  \<open>bisect.bisect_left(a, x)\<close>: the library's binary search, with \<open>lo = 0\<close> and
  \<open>hi = len(a)\<close>.
\<close>

function bisect_left_loop :: "'a::linorder list \<Rightarrow> 'a \<Rightarrow> nat \<Rightarrow> nat \<Rightarrow> nat" where
  "bisect_left_loop a x lo hi =
     (if lo < hi then
        (let mid = (lo + hi) div 2
         in if a ! mid < x then bisect_left_loop a x (mid + 1) hi
            else bisect_left_loop a x lo mid)
      else lo)"
  by pat_completeness auto
termination
  by (relation "measure (\<lambda>(a, x, lo, hi). hi - lo)") auto

declare bisect_left_loop.simps [simp del]

definition bisect_left :: "'a::linorder list \<Rightarrow> 'a \<Rightarrow> nat" where
  "bisect_left a x = bisect_left_loop a x 0 (length a)"

text \<open>
  \<open>find_greater_than_or_equal(a, key)\<close>. The assertion \<open>a and key\<close> fails on an
  empty list and on a key that is zero.
\<close>

definition find_greater_than_or_equal :: "'a::{linorder,zero} list \<Rightarrow> 'a \<Rightarrow> error + 'a" where
  "find_greater_than_or_equal a key =
     (if a = [] \<or> key = 0 then Inl AssertionError
      else (let i = bisect_left a key
            in if i = length a then Inl ValueError else Inr (a ! i)))"

section \<open>aws\_instance.py: the catalog and the size resolution\<close>

record instance_type =
  type :: string
  CPU :: int
  RAM :: real

text \<open>
  \<open>lookup_type(cpu, ram, types)\<close>: the catalog is sorted by
  \<open>(int(CPU), int(RAM))\<close> (a stable sort) and the entries with exactly this CPU
  and RAM are collected.
\<close>

definition lookup_type :: "int \<Rightarrow> real \<Rightarrow> instance_type list \<Rightarrow> error + string list" where
  "lookup_type cpu ram types =
     (if cpu = 0 \<or> ram = 0 then Inl AssertionError
      else Inr (map type
                  (filter (\<lambda>i. CPU i = cpu \<and> RAM i = ram)
                     (sort_key (\<lambda>i. (CPU i, py_int (RAM i))) types))))"

text \<open>
  \<open>get_minimum_ram_size\<close> and \<open>get_minimum_cpu_size\<close> sort the catalog by the
  value and read entry 0, an IndexError on the empty catalog.
\<close>

definition get_minimum_ram_size :: "instance_type list \<Rightarrow> error + real" where
  "get_minimum_ram_size types =
     (case sort_key RAM types of [] \<Rightarrow> Inl IndexError | t # _ \<Rightarrow> Inr (RAM t))"

definition get_minimum_cpu_size :: "instance_type list \<Rightarrow> error + int" where
  "get_minimum_cpu_size types =
     (case sort_key CPU types of [] \<Rightarrow> Inl IndexError | t # _ \<Rightarrow> Inr (CPU t))"

text \<open>\<open>sizes.index(ram)\<close>: the first position of the value, ValueError when absent.\<close>

fun index_of :: "'a list \<Rightarrow> 'a \<Rightarrow> nat option" where
  "index_of [] x = None"
| "index_of (y # ys) x = (if y = x then Some 0 else map_option Suc (index_of ys x))"

text \<open>
  \<open>get_next_ram_size(sizes, ram)\<close>: the entry after the current one. The second
  assertion fails when the current entry is the last one.
\<close>

definition get_next_ram_size :: "real list \<Rightarrow> real \<Rightarrow> error + real" where
  "get_next_ram_size sizes ram =
     (if ram = 0 \<or> sizes = [] then Inl AssertionError
      else (case index_of sizes ram of
              None \<Rightarrow> Inl ValueError
            | Some current \<Rightarrow>
                if length sizes > current + 1 then Inr (sizes ! (current + 1))
                else Inl AssertionError))"

text \<open>
  \<open>extract_list_from_instance_types(key, types)\<close>: the values are put in a set,
  the set is sorted. Here the key is the field selector.
\<close>

definition extract_list_from_instance_types ::
    "(instance_type \<Rightarrow> 'a::linorder) \<Rightarrow> instance_type list \<Rightarrow> 'a list" where
  "extract_list_from_instance_types key types = sort (remdups (map key types))"

text \<open>
  The \<open>while not found\<close> loop of \<open>get_correct_instance_size\<close>. One round looks
  the pair up and then always advances \<open>min_ram\<close>, also when the lookup has
  found something; the test of the loop comes after both. A loop that does not
  return is \<open>None\<close>.
\<close>

partial_function (option) size_loop ::
    "int \<Rightarrow> real \<Rightarrow> real list \<Rightarrow> instance_type list \<Rightarrow> (error + string list) option" where
  "size_loop min_cpu min_ram sorted_ram_size types =
     (case lookup_type min_cpu min_ram types of
        Inl e \<Rightarrow> Some (Inl e)
      | Inr found \<Rightarrow>
          (case get_next_ram_size sorted_ram_size min_ram of
             Inl e \<Rightarrow> Some (Inl e)
           | Inr next_ram \<Rightarrow>
               (case find_greater_than_or_equal sorted_ram_size next_ram of
                  Inl e \<Rightarrow> Some (Inl e)
                | Inr min_ram' \<Rightarrow>
                    if found = [] then size_loop min_cpu min_ram' sorted_ram_size types
                    else Some (Inr found))))"

definition get_correct_instance_size ::
    "int \<Rightarrow> real \<Rightarrow> instance_type list \<Rightarrow> (error + string list) option" where
  "get_correct_instance_size cpu ram types =
     (if cpu = 0 \<or> ram = 0 then Some (Inl AssertionError)
      else (case find_greater_than_or_equal (extract_list_from_instance_types CPU types) cpu of
              Inl e \<Rightarrow> Some (Inl e)
            | Inr min_cpu \<Rightarrow>
                (let sorted_ram_size = extract_list_from_instance_types RAM types
                 in case find_greater_than_or_equal sorted_ram_size ram of
                      Inl e \<Rightarrow> Some (Inl e)
                    | Inr min_ram \<Rightarrow> size_loop min_cpu min_ram sorted_ram_size types)))"

section \<open>data\_processing.py: inventory tables\<close>

text \<open>
  A row of a table is a list of cells. Host and disk rows are dictionaries with
  fixed keys in the source; both carry the key \<open>VM\<close>. The RAM of a host is the
  raw string of the table first and a float after \<open>process_host_ram\<close>.
\<close>

record vm_rec =
  VM :: string

record disk = vm_rec +
  Capacity :: string

record 'r host = vm_rec +
  CPUs :: int
  host_RAM :: 'r
  OS :: string

text \<open>\<open>s.lower()\<close>, on the ASCII letters.\<close>

definition py_lower :: "string \<Rightarrow> string" where
  "py_lower s =
     map (\<lambda>c. case map_of (zip ''ABCDEFGHIJKLMNOPQRSTUVWXYZ'' ''abcdefghijklmnopqrstuvwxyz'') c of
               Some l \<Rightarrow> l
             | None \<Rightarrow> c) s"

text \<open>\<open>sub in s\<close> on strings.\<close>

fun str_contains :: "string \<Rightarrow> string \<Rightarrow> bool" where
  "str_contains sub [] = (sub = [])"
| "str_contains sub (c # cs) =
     (take (length sub) (c # cs) = sub \<or> str_contains sub cs)"

text \<open>The inner loop of \<open>get_csv_column_title\<close>, over \<open>enumerate(title_row)\<close>.\<close>

fun find_column :: "string \<Rightarrow> nat \<Rightarrow> string list \<Rightarrow> nat option" where
  "find_column title column [] = None"
| "find_column title column (v # vs) =
     (if str_contains (py_lower title) (py_strip (py_lower v)) then Some column
      else find_column title (column + 1) vs)"

fun find_titles :: "string list \<Rightarrow> string list \<Rightarrow> error + nat" where
  "find_titles title_row [] = Inl ValueError"
| "find_titles title_row (title # titles) =
     (case find_column title 0 title_row of
        Some column \<Rightarrow> Inr column
      | None \<Rightarrow> find_titles title_row titles)"

definition get_csv_column_title :: "string list \<Rightarrow> string list \<Rightarrow> error + nat" where
  "get_csv_column_title title_row titles =
     (if title_row = [] \<or> titles = [] then Inl AssertionError
      else find_titles title_row titles)"

text \<open>
  A header row lacks a column when none of its cells contains any of the titles
  looked for; this is when \<open>get_csv_column_title\<close> raises ValueError.
\<close>

definition lacks_column :: "string list \<Rightarrow> string list \<Rightarrow> bool" where
  "lacks_column title_row titles =
     (title_row \<noteq> [] \<and> titles \<noteq> [] \<and>
      list_all (\<lambda>title. list_all (\<lambda>v. \<not> str_contains (py_lower title) (py_strip (py_lower v)))
                           title_row) titles)"

text \<open>\<open>row[i]\<close> with a column number found in the header.\<close>

definition cell :: "string list \<Rightarrow> nat \<Rightarrow> error + string" where
  "cell row i = (if i < length row then Inr (row ! i) else Inl IndexError)"

definition set_minimum_ram_size_for_instance ::
    "float_arith \<Rightarrow> string \<Rightarrow> real \<Rightarrow> error + real" where
  "set_minimum_ram_size_for_instance a ram min_ram =
     (case int_of_str ram of
        Inl e \<Rightarrow> Inl e
      | Inr n \<Rightarrow>
          (let gig_ram = real_of_int (py_round (float_div a n 1000))
           in Inr (if gig_ram > min_ram then gig_ram else min_ram)))"

text \<open>One data row of \<open>load_host_records_from_csv\<close>.\<close>

definition host_of_row ::
    "int \<Rightarrow> nat \<Rightarrow> nat \<Rightarrow> nat \<Rightarrow> nat \<Rightarrow> string list \<Rightarrow> error + string host" where
  "host_of_row min_cpu cpu_count_column ram_column vm_column os_column row =
     (case cell row cpu_count_column of
        Inl e \<Rightarrow> Inl e
      | Inr c \<Rightarrow>
          (case int_of_str c of
             Inl e \<Rightarrow> Inl e
           | Inr n \<Rightarrow>
               (case cell row ram_column of
                  Inl e \<Rightarrow> Inl e
                | Inr r \<Rightarrow>
                    (case cell row vm_column of
                       Inl e \<Rightarrow> Inl e
                     | Inr v \<Rightarrow>
                         (case cell row os_column of
                            Inl e \<Rightarrow> Inl e
                          | Inr os \<Rightarrow>
                              Inr \<lparr>VM = v, CPUs = (if n < min_cpu then min_cpu else n),
                                   host_RAM = r, OS = os\<rparr>)))))"

fun host_rows :: "int \<Rightarrow> nat \<Rightarrow> nat \<Rightarrow> nat \<Rightarrow> nat \<Rightarrow> string list list \<Rightarrow> error + string host list" where
  "host_rows min_cpu cc rc vc oc [] = Inr []"
| "host_rows min_cpu cc rc vc oc (row # rows) =
     (case host_of_row min_cpu cc rc vc oc row of
        Inl e \<Rightarrow> Inl e
      | Inr h \<Rightarrow>
          (case host_rows min_cpu cc rc vc oc rows of
             Inl e \<Rightarrow> Inl e
           | Inr hs \<Rightarrow> Inr (h # hs)))"

text \<open>
  \<open>load_host_records_from_csv\<close>, on the rows of the file: the first row is the
  header, where the four columns are looked up in this order.
\<close>

definition load_host_records_from_csv :: "string list list \<Rightarrow> int \<Rightarrow> error + string host list" where
  "load_host_records_from_csv input_csv min_cpu =
     (case input_csv of
        [] \<Rightarrow> Inr []
      | header # rows \<Rightarrow>
          (case get_csv_column_title header [''CPUs''] of
             Inl e \<Rightarrow> Inl e
           | Inr cc \<Rightarrow>
               (case get_csv_column_title header [''Max''] of
                  Inl e \<Rightarrow> Inl e
                | Inr rc \<Rightarrow>
                    (case get_csv_column_title header [''VM''] of
                       Inl e \<Rightarrow> Inl e
                     | Inr vc \<Rightarrow>
                         (case get_csv_column_title header
                                 [''OS according to the configuration file''] of
                            Inl e \<Rightarrow> Inl e
                          | Inr oc \<Rightarrow> host_rows min_cpu cc rc vc oc rows)))))"

fun process_host_ram ::
    "float_arith \<Rightarrow> string host list \<Rightarrow> real \<Rightarrow> error + real host list" where
  "process_host_ram a [] min_ram = Inr []"
| "process_host_ram a (h # hosts) min_ram =
     (case set_minimum_ram_size_for_instance a (remove_commas (host_RAM h)) min_ram of
        Inl e \<Rightarrow> Inl e
      | Inr r \<Rightarrow>
          (case process_host_ram a hosts min_ram of
             Inl e \<Rightarrow> Inl e
           | Inr hs \<Rightarrow> Inr (\<lparr>VM = VM h, CPUs = CPUs h, host_RAM = r, OS = OS h\<rparr> # hs)))"

fun disk_rows :: "nat \<Rightarrow> nat \<Rightarrow> string list list \<Rightarrow> error + disk list" where
  "disk_rows capacity_column vm_column [] = Inr []"
| "disk_rows capacity_column vm_column (row # rows) =
     (case cell row capacity_column of
        Inl e \<Rightarrow> Inl e
      | Inr c \<Rightarrow>
          (case cell row vm_column of
             Inl e \<Rightarrow> Inl e
           | Inr v \<Rightarrow>
               (case disk_rows capacity_column vm_column rows of
                  Inl e \<Rightarrow> Inl e
                | Inr ds \<Rightarrow> Inr (\<lparr>VM = v, Capacity = c\<rparr> # ds))))"

text \<open>
  \<open>load_storage_records_from_csv\<close>: a ValueError of the header lookup is caught
  and the empty list is returned; any other exception passes.
\<close>

definition load_storage_records_from_csv :: "string list list \<Rightarrow> error + disk list" where
  "load_storage_records_from_csv input_csv =
     (case input_csv of
        [] \<Rightarrow> Inr []
      | header # rows \<Rightarrow>
          (case get_csv_column_title header [''Capacity MB'', ''Capacity MiB'', ''Capacity''] of
             Inl ValueError \<Rightarrow> Inr []
           | Inl e \<Rightarrow> Inl e
           | Inr capacity_column \<Rightarrow>
               (case get_csv_column_title header [''VM''] of
                  Inl ValueError \<Rightarrow> Inr []
                | Inl e \<Rightarrow> Inl e
                | Inr vm_column \<Rightarrow> disk_rows capacity_column vm_column rows)))"

section \<open>aws\_pricing.py\<close>

text \<open>
  The two price lookups call the external price service. \<open>get_price\<close> is a
  parameter of the model, a function of (instance, os, pricing model) as the
  memoised source function is; \<open>None\<close> stands for Python's \<open>None\<close>. The result
  of \<open>get_storage_cost()\<close> is a parameter too, a ValueError or the price.
\<close>

type_synonym price_source = "string \<Rightarrow> string \<Rightarrow> string \<Rightarrow> real option"

text \<open>
  A price is unavailable when the lookup gives \<open>None\<close> or \<open>0.0\<close>, the test
  of \<open>get_least_expensive_option\<close>.
\<close>

definition unavailable :: "price_source \<Rightarrow> string \<Rightarrow> string \<Rightarrow> string \<Rightarrow> bool" where
  "unavailable get_price os pricing_model instance =
     (get_price instance os pricing_model = None \<or> get_price instance os pricing_model = Some 0)"

text \<open>
  A \<open>Counter\<close>: an insertion-ordered dictionary where an absent key counts 0.
\<close>

type_synonym counter = "(string \<times> nat) list"

definition counter_get :: "counter \<Rightarrow> string \<Rightarrow> nat" where
  "counter_get c k = (case map_of c k of None \<Rightarrow> 0 | Some n \<Rightarrow> n)"

definition counter_incr :: "counter \<Rightarrow> string \<Rightarrow> counter" where
  "counter_incr c k = AList.update k (counter_get c k + 1) c"

text \<open>The dictionary \<open>{"Instance Type": .., "Instance Cost": ..}\<close>.\<close>

type_synonym type_and_cost = "string option \<times> real option"

text \<open>
  The loop of \<open>get_least_expensive_option\<close> over the candidates. The state is the
  dictionary \<open>prices\<close> (insertion-ordered), the list \<open>invalid_instances\<close> and
  the counter passed in by the caller.
\<close>

fun price_loop ::
    "price_source \<Rightarrow> string \<Rightarrow> string \<Rightarrow> string list
       \<Rightarrow> (string \<times> real) list \<times> string list \<times> counter
       \<Rightarrow> (string \<times> real) list \<times> string list \<times> counter" where
  "price_loop get_price os pricing_model [] st = st"
| "price_loop get_price os pricing_model (instance # instances) (prices, invalid_instances, cnt) =
     (let price = get_price instance os pricing_model
      in if price = None \<or> price = Some 0 then
           price_loop get_price os pricing_model instances
             (prices, invalid_instances @ [instance], counter_incr cnt instance)
         else
           price_loop get_price os pricing_model instances
             (AList.update instance (the price) prices, invalid_instances, cnt))"

text \<open>
  \<open>get_least_expensive_option\<close> returns the dictionary, the invalid instances
  and (here) the updated counter. The values of \<open>prices\<close> are never \<open>None\<close>, so
  the comprehension before the sort keeps every item. The sort is stable, with
  key \<open>int(price)\<close>.
\<close>

definition get_least_expensive_option ::
    "price_source \<Rightarrow> string list \<Rightarrow> string \<Rightarrow> string \<Rightarrow> counter
       \<Rightarrow> (type_and_cost \<times> string list) \<times> counter" where
  "get_least_expensive_option get_price instances os pricing_model invalid_instance_types_count =
     (if instances = [] then (((None, None), []), invalid_instance_types_count)
      else if os = [] then (((None, None), []), invalid_instance_types_count)
      else (case price_loop get_price os pricing_model instances
                   ([], [], invalid_instance_types_count) of
              (prices, invalid_instances, cnt) \<Rightarrow>
                (case sort_key (\<lambda>x. py_int (snd x)) prices of
                   [] \<Rightarrow> (((None, None), invalid_instances), cnt)
                 | x # _ \<Rightarrow>
                     (((Some (fst x), Some (real_of_int (py_int (snd x)))), invalid_instances),
                      cnt))))"

text \<open>The loop of \<open>get_three_year_storage_cost\<close> over the disks.\<close>

fun mbytes_loop :: "string \<Rightarrow> disk list \<Rightarrow> int \<Rightarrow> error + int" where
  "mbytes_loop vm [] mbytes = Inr mbytes"
| "mbytes_loop vm (d # disks) mbytes =
     (if VM d = vm then
        (case int_of_str (remove_commas (Capacity d)) of
           Inl e \<Rightarrow> Inl e
         | Inr m \<Rightarrow> mbytes_loop vm disks m)
      else mbytes_loop vm disks mbytes)"

text \<open>
  \<open>get_three_year_storage_cost(host, disks)\<close> returns the pair
  (\<open>Storage\<close>, \<open>Storage Cost\<close>). A host record is never the empty dictionary, so
  the assertion is about the disks.
\<close>

definition get_three_year_storage_cost ::
    "float_arith \<Rightarrow> error + real \<Rightarrow> ('a, 'b) host_scheme \<Rightarrow> disk list
       \<Rightarrow> error + real \<times> real" where
  "get_three_year_storage_cost a get_storage_cost host disks =
     (if disks = [] then Inl AssertionError
      else (case get_storage_cost of
              Inl e \<Rightarrow> Inl e
            | Inr price_per_gb_month \<Rightarrow>
                (case mbytes_loop (VM host) disks 0 of
                   Inl e \<Rightarrow> Inl e
                 | Inr mbytes \<Rightarrow>
                     (let gbytes = float_div a mbytes 1000;
                          monthly_cost = float_2f a (float_mul a price_per_gb_month gbytes);
                          yearly_cost = float_mul a monthly_cost 12;
                          three_year_cost = float_2f a (float_mul a yearly_cost 3)
                      in Inr (gbytes, three_year_cost)))))"

record host_with_type_cost = "real host" +
  Instance_Type :: "string option"
  Instance_Cost :: "real option"

record host_with_storage_cost = host_with_type_cost +
  Storage :: real
  Storage_Cost :: "real option"

record host_with_cost_details = host_with_storage_cost +
  host_Total :: real
  Cost_Details :: "(string \<times> type_and_cost) list"

definition get_total_cost :: "float_arith \<Rightarrow> 'a host_with_storage_cost_scheme \<Rightarrow> real" where
  "get_total_cost a host =
     (let instance_cost = (case Instance_Cost host of Some c \<Rightarrow> c | None \<Rightarrow> 0);
          storage_cost = (case Storage_Cost host of Some c \<Rightarrow> c | None \<Rightarrow> 0)
      in float_2f a (float_add a instance_cost storage_cost))"

section \<open>aws\_instance.py: one host\<close>

text \<open>
  The loop of \<open>find_aws_instance\<close> over the pricing models, with its own counter.
\<close>

fun pricing_models_loop ::
    "price_source \<Rightarrow> string list \<Rightarrow> string \<Rightarrow> string list
       \<Rightarrow> (string \<times> type_and_cost) list \<times> string list \<times> counter
       \<Rightarrow> (string \<times> type_and_cost) list \<times> string list \<times> counter" where
  "pricing_models_loop get_price instances os [] st = st"
| "pricing_models_loop get_price instances os (pricing_model # models)
       (cost_details, all_invalid_instances, cnt) =
     (case get_least_expensive_option get_price instances os pricing_model cnt of
        ((type_and_cost, invalid_instances), cnt') \<Rightarrow>
          pricing_models_loop get_price instances os models
            (AList.update pricing_model type_and_cost cost_details,
             all_invalid_instances @ invalid_instances, cnt'))"

definition pricing_models :: "string list" where
  "pricing_models = [''onDemand'', ''1-year Reserved'', ''3-year Reserved'']"

text \<open>
  \<open>find_aws_instance(host, disks, types)\<close>. The result is the merged record, or
  \<open>None\<close> of the source (inner option); the counter and the list of invalid
  instances are local and are dropped at the return. The outer option is the
  loop of the size resolution.
\<close>

definition find_aws_instance ::
    "float_arith \<Rightarrow> price_source \<Rightarrow> error + real \<Rightarrow> real host \<Rightarrow> disk list
       \<Rightarrow> instance_type list \<Rightarrow> (error + host_with_cost_details option) option" where
  "find_aws_instance a get_price get_storage_cost host disks types =
     (case get_correct_instance_size (CPUs host) (host_RAM host) types of
        None \<Rightarrow> None
      | Some (Inl e) \<Rightarrow> Some (Inl e)
      | Some (Inr instances) \<Rightarrow>
          if instances = [] then Some (Inr None)
          else (case pricing_models_loop get_price instances (OS host) pricing_models
                       ([], [], []) of
                  (cost_details, all_invalid_instances, invalid_instance_types_count) \<Rightarrow>
                    (case map_of cost_details ''3-year Reserved'' of
                       None \<Rightarrow> Some (Inl KeyError)
                     | Some (itype, icost) \<Rightarrow>
                         (case get_three_year_storage_cost a get_storage_cost host disks of
                            Inl e \<Rightarrow> Some (Inl e)
                          | Inr (gbytes, three_year_cost) \<Rightarrow>
                              (let host_with_storage_cost =
                                     \<lparr>VM = VM host, CPUs = CPUs host, host_RAM = host_RAM host,
                                      OS = OS host, Instance_Type = itype, Instance_Cost = icost,
                                      Storage = gbytes, Storage_Cost = Some three_year_cost\<rparr>
                               in Some (Inr (Some
                                    \<lparr>VM = VM host, CPUs = CPUs host, host_RAM = host_RAM host,
                                     OS = OS host, Instance_Type = itype, Instance_Cost = icost,
                                     Storage = gbytes, Storage_Cost = Some three_year_cost,
                                     host_Total = get_total_cost a host_with_storage_cost,
                                     Cost_Details = cost_details\<rparr>)))))))"

definition process_host ::
    "float_arith \<Rightarrow> price_source \<Rightarrow> error + real \<Rightarrow> real host \<Rightarrow> disk list
       \<Rightarrow> instance_type list \<Rightarrow> (error + host_with_cost_details option) option" where
  "process_host a get_price get_storage_cost host disks types =
     find_aws_instance a get_price get_storage_cost host disks types"

section \<open>main.py: the batch run\<close>

text \<open>
  The workers of the thread pool each run \<open>process_host\<close> on one host; \<open>main\<close>
  collects the results as they complete. An exception of a worker is logged and
  the host is skipped, a \<open>None\<close> result is skipped too. The hosts are taken in
  the order of submission here, one of the possible completion orders.
\<close>

fun collect_results ::
    "float_arith \<Rightarrow> price_source \<Rightarrow> error + real \<Rightarrow> disk list \<Rightarrow> instance_type list \<Rightarrow> real host list
       \<Rightarrow> host_with_cost_details list \<Rightarrow> host_with_cost_details list option" where
  "collect_results a get_price get_storage_cost disks types [] processed_host_records =
     Some processed_host_records"
| "collect_results a get_price get_storage_cost disks types (host # hosts) processed_host_records =
     (case process_host a get_price get_storage_cost host disks types of
        None \<Rightarrow> None
      | Some (Inl e) \<Rightarrow>
          collect_results a get_price get_storage_cost disks types hosts processed_host_records
      | Some (Inr None) \<Rightarrow>
          collect_results a get_price get_storage_cost disks types hosts processed_host_records
      | Some (Inr (Some result)) \<Rightarrow>
          collect_results a get_price get_storage_cost disks types hosts
            (processed_host_records @ [result]))"

record run =
  processed_host_records :: "host_with_cost_details list"
  invalid_instance_types_count :: counter

text \<open>
  \<open>main\<close> from the fetched catalog and the two converted tables up to the
  point where the reports are written: \<open>Inl 1\<close> is the early \<open>return 1\<close>,
  \<open>Inr\<close> the batch and the tally handed to the report writers. The counter of
  \<open>main\<close> is created empty and no statement of \<open>main\<close> or of a worker writes to
  it.
\<close>

definition main ::
    "float_arith \<Rightarrow> price_source \<Rightarrow> error + real \<Rightarrow> instance_type list
       \<Rightarrow> string list list \<Rightarrow> string list list \<Rightarrow> (int + run) option" where
  "main a get_price get_storage_cost instance_types cpu_input_file disk_input_file =
     (case get_minimum_cpu_size instance_types of
        Inl e \<Rightarrow> Some (Inl 1)
      | Inr min_cpu \<Rightarrow>
     (case get_minimum_ram_size instance_types of
        Inl e \<Rightarrow> Some (Inl 1)
      | Inr min_ram \<Rightarrow>
     (case load_host_records_from_csv cpu_input_file min_cpu of
        Inl e \<Rightarrow> Some (Inl 1)
      | Inr raw_hosts \<Rightarrow>
     (case process_host_ram a raw_hosts min_ram of
        Inl e \<Rightarrow> Some (Inl 1)
      | Inr hosts \<Rightarrow>
     (case load_storage_records_from_csv disk_input_file of
        Inl e \<Rightarrow> Some (Inl 1)
      | Inr disks \<Rightarrow>
          if hosts = [] \<or> disks = [] then Some (Inl 1)
          else (let invalid_instance_types_count = []
                in case collect_results a get_price get_storage_cost disks instance_types
                          hosts [] of
                     None \<Rightarrow> None
                   | Some records \<Rightarrow>
                       Some (Inr \<lparr>processed_host_records = records,
                                  invalid_instance_types_count =
                                    invalid_instance_types_count\<rparr>)))))))"

section \<open>Scenario data\<close>

text \<open>The catalog of the specification's scenarios, and one machine with one disk.\<close>

definition scenario_catalog :: "instance_type list" where
  "scenario_catalog =
     [\<lparr>type = ''a'', CPU = 2, RAM = 4\<rparr>, \<lparr>type = ''b'', CPU = 4, RAM = 8\<rparr>,
      \<lparr>type = ''c'', CPU = 4, RAM = 16\<rparr>]"

definition scenario_host :: "real host" where
  "scenario_host = \<lparr>VM = ''web01'', CPUs = 2, host_RAM = 4, OS = ''CentOS 7 (64-bit)''\<rparr>"

definition scenario_disks :: "disk list" where
  "scenario_disks = [\<lparr>VM = ''web01'', Capacity = ''1,024''\<rparr>]"

definition two_disks :: "disk list" where
  "two_disks = [\<lparr>VM = ''web01'', Capacity = ''1000''\<rparr>, \<lparr>VM = ''web01'', Capacity = ''2000''\<rparr>]"

definition other_disks :: "disk list" where
  "other_disks = [\<lparr>VM = ''db01'', Capacity = ''51,200''\<rparr>]"

definition no_price :: price_source where
  "no_price = (\<lambda>instance os pricing_model. None)"

definition unpriced_record :: host_with_cost_details where
  "unpriced_record =
     \<lparr>VM = ''web01'', CPUs = 2, host_RAM = 4, OS = ''CentOS 7 (64-bit)'',
      Instance_Type = None, Instance_Cost = None, Storage = 128 / 125,
      Storage_Cost = Some (72 / 25), host_Total = 72 / 25,
      Cost_Details = [(''onDemand'', None, None), (''1-year Reserved'', None, None),
                      (''3-year Reserved'', None, None)]\<rparr>"

definition scenario_cpu_table :: "string list list" where
  "scenario_cpu_table =
     [[''VM'', ''CPUs'', ''Max'', ''OS according to the configuration file''],
      [''web01'', ''1'', ''1,024'', ''CentOS 7 (64-bit)''],
      [''db01'', ''8'', ''32,768'', ''Microsoft Windows Server 2016'']]"

definition scenario_raw_hosts :: "string host list" where
  "scenario_raw_hosts =
     [\<lparr>VM = ''web01'', CPUs = 2, host_RAM = ''1,024'', OS = ''CentOS 7 (64-bit)''\<rparr>,
      \<lparr>VM = ''db01'', CPUs = 8, host_RAM = ''32,768'', OS = ''Microsoft Windows Server 2016''\<rparr>]"

definition scenario_hosts :: "real host list" where
  "scenario_hosts =
     [scenario_host,
      \<lparr>VM = ''db01'', CPUs = 8, host_RAM = 33, OS = ''Microsoft Windows Server 2016''\<rparr>]"

definition scenario_disk_table :: "string list list" where
  "scenario_disk_table = [[''VM'', ''Capacity MB''], [''web01'', ''1,024'']]"

definition unnamed_disk_table :: "string list list" where
  "unnamed_disk_table = [[''Disk'', ''Capacity MB''], [''Hard disk 1'', ''1,024'']]"

text \<open>
  Two price sources for the candidates \<open>b\<close> and \<open>c\<close>: hourly on-demand rates
  below one dollar, and upfront prices in whole dollars.
\<close>

definition hourly_prices :: price_source where
  "hourly_prices =
     (\<lambda>instance os pricing_model.
        if instance = ''b'' then Some (192 / 1000)
        else if instance = ''c'' then Some (96 / 1000) else None)"

definition upfront_prices :: price_source where
  "upfront_prices =
     (\<lambda>instance os pricing_model.
        if instance = ''b'' then Some 1500
        else if instance = ''c'' then Some 1200 else None)"

section \<open>Evaluation and rounding\<close>

lemmas resolve_eval =
  get_correct_instance_size_def extract_list_from_instance_types_def
  find_greater_than_or_equal_def bisect_left_def bisect_left_loop.simps size_loop.simps
  lookup_type_def
  get_next_ram_size_def py_int_def

lemmas str_eval =
  int_of_str_def remove_commas_def py_strip_def is_space_def digit_val_def

lemma py_round_of_int: "py_round (real_of_int n) = n"
  by (simp add: py_round_def)

lemma format_2f_zero: "format_2f 0 = 0"
  by (simp add: format_2f_def py_round_def)

lemma format_2f_idem: "format_2f (format_2f x) = format_2f x"
  by (simp add: format_2f_def py_round_of_int)

lemma scenario_host_size:
  "get_correct_instance_size (CPUs scenario_host) (host_RAM scenario_host) scenario_catalog
     = Some (Inr [''a''])"
  by (simp add: scenario_host_def scenario_catalog_def resolve_eval)

lemma scenario_host_storage:
  "get_three_year_storage_cost exact_arith (Inr (2 / 25)) scenario_host scenario_disks
     = Inr (128 / 125, 72 / 25)"
  by (simp add: scenario_host_def scenario_disks_def get_three_year_storage_cost_def Let_def
        str_eval exact_arith_def format_2f_def py_round_def)

section \<open>Storage cost\<close>

lemma mbytes_loop_no_match:
  "\<forall>d\<in>set disks. VM d \<noteq> vm \<Longrightarrow> mbytes_loop vm disks mbytes = Inr mbytes"
  by (induction disks) auto

lemma exact_arith_rounds_stably: "rounds_stably exact_arith"
  by (simp add: rounds_stably_def exact_arith_def format_2f_idem)

lemma storage_cost_is_formatted:
  "get_three_year_storage_cost a sc host disks = Inr (g, c) \<Longrightarrow> \<exists>x. c = float_2f a x"
  by (auto simp: get_three_year_storage_cost_def Let_def split: sum.splits if_splits)

text \<open>
  C1. The claim: when two or more disk records carry the machine identifier of
  the host, the storage footprint is the sum of their capacities. The loop
  assigns instead of adding: for a machine with a disk of 1000 MB followed by
  one of 2000 MB the footprint is 2 GB, the last record alone, and not the
  3 GB of the sum.
\<close>

theorem storage_overwrites_earlier_disks:
  "get_three_year_storage_cost exact_arith (Inr (2 / 25)) scenario_host two_disks
     = Inr (2000 / 1000, 144 / 25)
   \<and> (2000 / 1000 :: real) \<noteq> (1000 + 2000) / 1000"
  by (simp add: scenario_host_def two_disks_def get_three_year_storage_cost_def Let_def
        str_eval exact_arith_def format_2f_def py_round_def)

text \<open>
  C7. Whenever the storage computation returns a footprint \<open>storage_gb\<close> and a
  cost, the cost is the monthly cost \<open>price * storage_gb\<close> rounded to cents,
  times 12, times 3, rounded to cents again, each step in the float arithmetic
  of the run; and a machine whose only disk has the capacity string \<open>1,024\<close>
  has the footprint \<open>1024 / 1000\<close> GB: the comma is removed and the number is
  divided by 1000.
\<close>

theorem storage_cost_formula:
  "(get_three_year_storage_cost a (Inr price_per_gb_month) host disks = Inr (storage_gb, cost)
      \<longrightarrow> cost =
            float_2f a
              (float_mul a
                 (float_mul a (float_2f a (float_mul a price_per_gb_month storage_gb)) 12) 3))
   \<and> (VM d = VM host \<and> Capacity d = ''1,024''
      \<longrightarrow> (\<exists>c. get_three_year_storage_cost a (Inr price_per_gb_month) host [d]
                 = Inr (float_div a 1024 1000, c)))"
proof -
  have "int_of_str (remove_commas ''1,024'') = Inr 1024"
    by (simp add: str_eval)
  then show ?thesis
    by (auto simp: get_three_year_storage_cost_def Let_def split: sum.splits if_splits)
qed

theorem storage_cost_formula_witness:
  "get_three_year_storage_cost exact_arith (Inr (2 / 25)) scenario_host scenario_disks
     = Inr (128 / 125, 72 / 25)
   \<and> (72 / 25 :: real) =
       float_2f exact_arith
         (float_mul exact_arith
            (float_mul exact_arith
               (float_2f exact_arith (float_mul exact_arith (2 / 25) (128 / 125))) 12) 3)
   \<and> VM (hd scenario_disks) = VM scenario_host
   \<and> Capacity (hd scenario_disks) = ''1,024''
   \<and> (\<exists>c. get_three_year_storage_cost exact_arith (Inr (2 / 25)) scenario_host
              [hd scenario_disks]
            = Inr (float_div exact_arith 1024 1000, c))
   \<and> float_div exact_arith 1024 1000 = 1024 / 1000"
proof -
  have h: "VM (hd scenario_disks) = VM scenario_host \<and> Capacity (hd scenario_disks) = ''1,024''"
    by (simp add: scenario_disks_def scenario_host_def)
  have e: "float_div exact_arith 1024 1000 = 1024 / 1000"
    by (simp add: exact_arith_def)
  show ?thesis
    using storage_cost_formula
      [of exact_arith "2 / 25" scenario_host scenario_disks "128 / 125" "72 / 25"
          "hd scenario_disks"]
      scenario_host_storage h e
    by blast
qed

text \<open>
  C10. For a non-empty list of disk records none of which carries the machine
  identifier of the host, and a storage price that was obtained, the storage
  computation returns a footprint of 0 GB and a three-year cost of 0.00.
\<close>

theorem storage_no_disks_of_host:
  assumes "disks \<noteq> []" and "\<forall>d\<in>set disks. VM d \<noteq> VM host"
  shows "get_three_year_storage_cost exact_arith (Inr price_per_gb_month) host disks = Inr (0, 0)"
  using assms
  by (simp add: get_three_year_storage_cost_def mbytes_loop_no_match format_2f_zero
        exact_arith_def)

theorem storage_no_disks_of_host_witness:
  "other_disks \<noteq> [] \<and> map VM other_disks = [''db01''] \<and> VM scenario_host = ''web01''
   \<and> get_three_year_storage_cost exact_arith (Inr (2 / 25)) scenario_host other_disks = Inr (0, 0)"
proof -
  have h1: "other_disks \<noteq> []"
    by (simp add: other_disks_def)
  have h2: "\<forall>d\<in>set other_disks. VM d \<noteq> VM scenario_host"
    by (simp add: other_disks_def scenario_host_def)
  have h3: "map VM other_disks = [''db01''] \<and> VM scenario_host = ''web01''"
    by (simp add: other_disks_def scenario_host_def)
  show ?thesis
    using storage_no_disks_of_host [OF h1 h2, of "2 / 25"] h1 h3 by blast
qed

section \<open>Unavailable prices and the grand total\<close>

lemma price_loop_all_unavailable:
  "\<forall>i\<in>set instances. unavailable get_price os m i \<Longrightarrow>
   fst (price_loop get_price os m instances (prices, bad, cnt)) = prices"
  by (induction instances arbitrary: bad cnt) (auto simp: unavailable_def Let_def)

lemma least_expensive_all_unavailable:
  "\<forall>i\<in>set instances. unavailable get_price os m i \<Longrightarrow>
   fst (fst (get_least_expensive_option get_price instances os m cnt)) = (None, None)"
  using price_loop_all_unavailable [of instances get_price os m "[]" "[]" cnt]
  by (auto simp: get_least_expensive_option_def split: prod.splits list.splits)

lemma pricing_models_loop_other:
  "m \<notin> set ms \<Longrightarrow>
   map_of (fst (pricing_models_loop get_price instances os ms (cd, bad, cnt))) m = map_of cd m"
  by (induction ms arbitrary: cd bad cnt) (auto simp: update_conv' split: prod.splits)

lemma pricing_models_loop_unavailable:
  "\<forall>m\<in>set ms. \<forall>i\<in>set instances. unavailable get_price os m i \<Longrightarrow> m \<in> set ms \<Longrightarrow>
   map_of (fst (pricing_models_loop get_price instances os ms (cd, bad, cnt))) m
     = Some (None, None)"
proof (induction ms arbitrary: cd bad cnt)
  case Nil
  then show ?case by simp
next
  case (Cons a ms)
  obtain tc iv cnt' where g: "get_least_expensive_option get_price instances os a cnt = ((tc, iv), cnt')"
    by (metis prod.collapse)
  have tc: "tc = (None, None)"
    using least_expensive_all_unavailable [of instances get_price os a cnt] Cons.prems(1) g
    by simp
  show ?case
  proof (cases "m \<in> set ms")
    case True
    then show ?thesis using Cons.IH Cons.prems(1) g by simp
  next
    case False
    then have "m = a" using Cons.prems(2) by simp
    then show ?thesis using False g tc
      by (simp add: pricing_models_loop_other update_conv')
  qed
qed

text \<open>
  C6. For a record with instance cost \<open>ic\<close> and storage cost \<open>sc\<close>, both
  non-negative, the total is the float sum \<open>ic + sc\<close> written with two
  decimals. A \<open>None\<close> instance cost counts 0. When every candidate of a host is
  unavailable under each of the three pricing models, the record that
  \<open>find_aws_instance\<close> returns has no instance type and no instance cost, all
  its cost details are empty, its machine identifier is the host's, its storage
  footprint and storage cost are those of the storage computation, and, in an
  arithmetic where an amount already written with two decimals stays as it is,
  its total is the storage cost.
\<close>

theorem total_cost_aggregation:
  "(Instance_Cost h = Some ic \<and> Storage_Cost h = Some sc \<and> 0 \<le> ic \<and> 0 \<le> sc
      \<longrightarrow> get_total_cost a h = float_2f a (float_add a ic sc))
   \<and> (Instance_Cost h0 = None \<and> Storage_Cost h0 = Some sc0
      \<longrightarrow> get_total_cost a h0 = float_2f a (float_add a 0 sc0))
   \<and> (get_correct_instance_size (CPUs host) (host_RAM host) types = Some (Inr instances)
      \<and> (\<forall>i\<in>set instances. \<forall>m\<in>set pricing_models. unavailable get_price (OS host) m i)
      \<and> find_aws_instance a get_price storage_price host disks types = Some (Inr (Some r))
      \<and> rounds_stably a
      \<longrightarrow> Instance_Type r = None \<and> Instance_Cost r = None
          \<and> (\<forall>m\<in>set pricing_models. map_of (Cost_Details r) m = Some (None, None))
          \<and> VM r = VM host
          \<and> get_three_year_storage_cost a storage_price host disks
                = Inr (Storage r, host_Total r)
          \<and> Storage_Cost r = Some (host_Total r))"
proof -
  have p1: "get_total_cost a h = float_2f a (float_add a ic sc)"
    if "Instance_Cost h = Some ic \<and> Storage_Cost h = Some sc \<and> 0 \<le> ic \<and> 0 \<le> sc"
    using that by (simp add: get_total_cost_def)
  have p2: "get_total_cost a h0 = float_2f a (float_add a 0 sc0)"
    if "Instance_Cost h0 = None \<and> Storage_Cost h0 = Some sc0"
    using that by (simp add: get_total_cost_def)
  have p3: "Instance_Type r = None \<and> Instance_Cost r = None
          \<and> (\<forall>m\<in>set pricing_models. map_of (Cost_Details r) m = Some (None, None))
          \<and> VM r = VM host
          \<and> get_three_year_storage_cost a storage_price host disks
                = Inr (Storage r, host_Total r)
          \<and> Storage_Cost r = Some (host_Total r)"
    if hyp: "get_correct_instance_size (CPUs host) (host_RAM host) types = Some (Inr instances)
      \<and> (\<forall>i\<in>set instances. \<forall>m\<in>set pricing_models. unavailable get_price (OS host) m i)
      \<and> find_aws_instance a get_price storage_price host disks types = Some (Inr (Some r))
      \<and> rounds_stably a"
  proof -
    from hyp have u:
      "\<forall>m\<in>set pricing_models. \<forall>i\<in>set instances. unavailable get_price (OS host) m i"
      by blast
    obtain cd bad cnt where loop:
      "pricing_models_loop get_price instances (OS host) pricing_models ([], [], [])
         = (cd, bad, cnt)"
      by (metis prod_cases3)
    have cdm: "\<forall>m\<in>set pricing_models. map_of cd m = Some (None, None)"
      using pricing_models_loop_unavailable [OF u, of _ "[]" "[]" "[]"] loop by simp
    then have cd3: "map_of cd ''3-year Reserved'' = Some (None, None)"
      by (simp add: pricing_models_def)
    from hyp loop cd3 obtain g c where
      st: "get_three_year_storage_cost a storage_price host disks = Inr (g, c)" and
      r: "r = \<lparr>VM = VM host, CPUs = CPUs host, host_RAM = host_RAM host,
                OS = OS host, Instance_Type = None, Instance_Cost = None,
                Storage = g, Storage_Cost = Some c,
                host_Total = get_total_cost a
                   \<lparr>VM = VM host, CPUs = CPUs host, host_RAM = host_RAM host,
                    OS = OS host, Instance_Type = None, Instance_Cost = None,
                    Storage = g, Storage_Cost = Some c\<rparr>,
                Cost_Details = cd\<rparr>"
      by (auto simp: find_aws_instance_def Let_def split: if_splits sum.splits prod.splits)
    obtain x where "c = float_2f a x"
      using storage_cost_is_formatted [OF st] by blast
    then have "float_2f a (float_add a 0 c) = c"
      using hyp by (simp add: rounds_stably_def)
    then have tot: "host_Total r = c"
      using r by (simp add: get_total_cost_def)
    show ?thesis
      using r tot st cdm by simp
  qed
  show ?thesis
    using p1 p2 p3 by blast
qed

lemma find_unpriced:
  "find_aws_instance exact_arith no_price (Inr (2 / 25)) scenario_host scenario_disks
     scenario_catalog
     = Some (Inr (Some unpriced_record))"
  by (simp add: find_aws_instance_def scenario_host_size scenario_host_storage
        pricing_models_def no_price_def get_least_expensive_option_def counter_incr_def
        counter_get_def Let_def)
     (simp add: scenario_host_def unpriced_record_def get_total_cost_def exact_arith_def
        format_2f_def py_round_def)

theorem total_cost_aggregation_witness:
  "get_total_cost exact_arith (unpriced_record\<lparr>Instance_Cost := Some 1234\<rparr>)
     = float_2f exact_arith (float_add exact_arith 1234 (72 / 25))
   \<and> get_total_cost exact_arith unpriced_record
     = float_2f exact_arith (float_add exact_arith 0 (72 / 25))
   \<and> find_aws_instance exact_arith no_price (Inr (2 / 25)) scenario_host scenario_disks
         scenario_catalog
         = Some (Inr (Some unpriced_record))
   \<and> rounds_stably exact_arith
   \<and> Instance_Cost unpriced_record = None
   \<and> VM unpriced_record = VM scenario_host
   \<and> Storage_Cost unpriced_record = Some (host_Total unpriced_record)
   \<and> get_three_year_storage_cost exact_arith (Inr (2 / 25)) scenario_host scenario_disks
         = Inr (Storage unpriced_record, host_Total unpriced_record)"
proof -
  have h1: "Instance_Cost (unpriced_record\<lparr>Instance_Cost := Some 1234\<rparr>) = Some 1234
      \<and> Storage_Cost (unpriced_record\<lparr>Instance_Cost := Some 1234\<rparr>) = Some (72 / 25)
      \<and> (0::real) \<le> 1234 \<and> (0::real) \<le> 72 / 25"
    by (simp add: unpriced_record_def)
  have h2: "Instance_Cost unpriced_record = None
      \<and> Storage_Cost unpriced_record = Some (72 / 25)"
    by (simp add: unpriced_record_def)
  have h3: "get_correct_instance_size (CPUs scenario_host) (host_RAM scenario_host)
        scenario_catalog = Some (Inr [''a''])
      \<and> (\<forall>i\<in>set [''a'']. \<forall>m\<in>set pricing_models.
            unavailable no_price (OS scenario_host) m i)
      \<and> find_aws_instance exact_arith no_price (Inr (2 / 25)) scenario_host scenario_disks
            scenario_catalog = Some (Inr (Some unpriced_record))
      \<and> rounds_stably exact_arith"
    using find_unpriced scenario_host_size exact_arith_rounds_stably
    by (simp add: unavailable_def no_price_def)
  show ?thesis
    using total_cost_aggregation
      [of "unpriced_record\<lparr>Instance_Cost := Some 1234\<rparr>" 1234 "72 / 25" exact_arith
          unpriced_record "72 / 25" scenario_host scenario_catalog "[''a'']" no_price
          "Inr (2 / 25)" scenario_disks unpriced_record]
      h1 h2 h3
    by blast
qed

section \<open>The size requirement of a host\<close>

lemma sort_key_head_Min:
  assumes "sort_key f xs = t # ts"
  shows "f t = Min (f ` set xs)"
proof -
  have s: "sorted (map f (t # ts))"
    using assms sorted_sort_key [of f xs] by simp
  have e: "set (t # ts) = set xs"
    using assms set_sort [of f xs] by simp
  have "\<forall>y\<in>set xs. f t \<le> f y"
    using s e by auto
  moreover have "t \<in> set xs"
    using e by auto
  ultimately show ?thesis
    by (intro Min_eqI [symmetric]) auto
qed

lemma get_minimum_cpu_size_Min:
  "get_minimum_cpu_size types = Inr m \<Longrightarrow> m = Min (CPU ` set types)"
  unfolding get_minimum_cpu_size_def
  by (simp split: list.splits) (use sort_key_head_Min [of CPU types] in auto)

lemma get_minimum_ram_size_Min:
  "get_minimum_ram_size types = Inr m \<Longrightarrow> m = Min (RAM ` set types)"
  unfolding get_minimum_ram_size_def
  by (simp split: list.splits) (use sort_key_head_Min [of RAM types] in auto)

lemma host_of_row_cpu:
  assumes "host_of_row min_cpu cc rc vc oc row = Inr h"
  shows "min_cpu \<le> CPUs h"
proof -
  from assms obtain n where "CPUs h = (if n < min_cpu then min_cpu else n)"
    unfolding host_of_row_def
    by (simp split: sum.splits) fastforce
  then show ?thesis by simp
qed

lemma host_rows_cpu:
  "host_rows min_cpu cc rc vc oc rows = Inr hs \<Longrightarrow> h \<in> set hs \<Longrightarrow> min_cpu \<le> CPUs h"
proof (induction rows arbitrary: hs)
  case Nil
  then show ?case by simp
next
  case (Cons row rows)
  from Cons.prems(1) obtain h1 hs1 where
    a: "host_of_row min_cpu cc rc vc oc row = Inr h1" and
    b: "host_rows min_cpu cc rc vc oc rows = Inr hs1" and
    c: "hs = h1 # hs1"
    by (simp split: sum.splits)
  then show ?case
    using Cons.IH [OF b] Cons.prems(2) host_of_row_cpu [OF a] by auto
qed

lemma load_host_records_cpu:
  "load_host_records_from_csv input_csv min_cpu = Inr hs \<Longrightarrow> h \<in> set hs \<Longrightarrow> min_cpu \<le> CPUs h"
  unfolding load_host_records_from_csv_def
  by (simp split: list.splits sum.splits) (auto dest: host_rows_cpu)

lemma set_minimum_ram_ge:
  "set_minimum_ram_size_for_instance a ram min_ram = Inr r \<Longrightarrow> min_ram \<le> r"
  unfolding set_minimum_ram_size_for_instance_def Let_def
  by (simp split: sum.splits) auto

lemma process_host_ram_clamped:
  "process_host_ram a raw_hosts min_ram = Inr hosts \<Longrightarrow> h \<in> set hosts \<Longrightarrow>
   min_ram \<le> host_RAM h \<and> (\<exists>h0\<in>set raw_hosts. CPUs h = CPUs h0)"
proof (induction raw_hosts arbitrary: hosts)
  case Nil
  then show ?case by simp
next
  case (Cons h1 raw_hosts)
  from Cons.prems(1) obtain r hs where
    r: "set_minimum_ram_size_for_instance a (remove_commas (host_RAM h1)) min_ram = Inr r" and
    b: "process_host_ram a raw_hosts min_ram = Inr hs" and
    c: "hosts = \<lparr>VM = VM h1, CPUs = CPUs h1, host_RAM = r, OS = OS h1\<rparr> # hs"
    by (simp split: sum.splits)
  show ?case
  proof (cases "h \<in> set hs")
    case True
    then show ?thesis using Cons.IH [OF b] by auto
  next
    case False
    then have "h = \<lparr>VM = VM h1, CPUs = CPUs h1, host_RAM = r, OS = OS h1\<rparr>"
      using c Cons.prems(2) by simp
    then show ?thesis using set_minimum_ram_ge [OF r] by simp
  qed
qed

lemmas csv_eval =
  get_csv_column_title_def py_lower_def py_strip_def is_space_def cell_def host_of_row_def
  int_of_str_def digit_val_def remove_commas_def

lemma scenario_minimum:
  "get_minimum_cpu_size scenario_catalog = Inr 2 \<and> get_minimum_ram_size scenario_catalog = Inr 4"
  by (simp add: get_minimum_cpu_size_def get_minimum_ram_size_def scenario_catalog_def)

lemma scenario_load_hosts:
  "load_host_records_from_csv scenario_cpu_table 2 = Inr scenario_raw_hosts"
  by (simp add: load_host_records_from_csv_def scenario_cpu_table_def scenario_raw_hosts_def
        csv_eval)

lemma scenario_process_ram:
  "process_host_ram exact_arith scenario_raw_hosts 4 = Inr scenario_hosts"
  by (simp add: scenario_raw_hosts_def scenario_hosts_def scenario_host_def
        set_minimum_ram_size_for_instance_def exact_arith_def
        str_eval py_round_def Let_def)

text \<open>
  C9. With \<open>min_cpu\<close> and \<open>min_ram\<close> the values \<open>main\<close> reads from the
  catalog, which are the smallest vCPU count and the smallest memory size of
  the catalog: every host record that \<open>load_host_records_from_csv\<close> followed by
  \<open>process_host_ram\<close> produces has a CPU count of at least \<open>min_cpu\<close> and a
  RAM size of at least \<open>min_ram\<close>.
\<close>

theorem size_requirement_clamped:
  assumes "get_minimum_cpu_size types = Inr min_cpu"
    and "get_minimum_ram_size types = Inr min_ram"
    and "load_host_records_from_csv input_csv min_cpu = Inr raw_hosts"
    and "process_host_ram a raw_hosts min_ram = Inr hosts"
    and "h \<in> set hosts"
  shows "min_cpu = Min (CPU ` set types) \<and> min_ram = Min (RAM ` set types)
         \<and> min_cpu \<le> CPUs h \<and> min_ram \<le> host_RAM h"
proof -
  obtain h0 where "h0 \<in> set raw_hosts" "CPUs h = CPUs h0"
    using process_host_ram_clamped [OF assms(4,5)] by blast
  then have "min_cpu \<le> CPUs h"
    using load_host_records_cpu [OF assms(3)] by simp
  moreover have "min_ram \<le> host_RAM h"
    using process_host_ram_clamped [OF assms(4,5)] by simp
  moreover note get_minimum_cpu_size_Min [OF assms(1)] get_minimum_ram_size_Min [OF assms(2)]
  ultimately show ?thesis
    by simp
qed

theorem size_requirement_clamped_witness:
  "get_minimum_cpu_size scenario_catalog = Inr 2
   \<and> get_minimum_ram_size scenario_catalog = Inr 4
   \<and> load_host_records_from_csv scenario_cpu_table 2 = Inr scenario_raw_hosts
   \<and> process_host_ram exact_arith scenario_raw_hosts 4 = Inr scenario_hosts
   \<and> hd scenario_hosts \<in> set scenario_hosts
   \<and> 2 = Min (CPU ` set scenario_catalog) \<and> 4 = Min (RAM ` set scenario_catalog)
   \<and> 2 \<le> CPUs (hd scenario_hosts) \<and> 4 \<le> host_RAM (hd scenario_hosts)"
proof -
  have m: "hd scenario_hosts \<in> set scenario_hosts"
    by (simp add: scenario_hosts_def)
  note t = size_requirement_clamped [OF conjunct1 [OF scenario_minimum]
        conjunct2 [OF scenario_minimum] scenario_load_hosts scenario_process_ram m]
  have a1: "get_minimum_cpu_size scenario_catalog = Inr 2"
    using scenario_minimum by (rule conjunct1)
  have a2: "get_minimum_ram_size scenario_catalog = Inr 4"
    using scenario_minimum by (rule conjunct2)
  have a3: "2 = Min (CPU ` set scenario_catalog)" "4 = Min (RAM ` set scenario_catalog)"
    "2 \<le> CPUs (hd scenario_hosts)" "4 \<le> host_RAM (hd scenario_hosts)"
    using t by simp_all
  show ?thesis
    by (intro conjI; fact a1 a2 a3 m scenario_load_hosts scenario_process_ram)
qed

section \<open>The ladder of RAM sizes\<close>

text \<open>
  C3. The claim: the resolution returns the first non-empty match on the ladder
  and fails only when the ladder is exhausted without a match; a match at the
  largest tier is returned. The loop advances \<open>min_ram\<close> after every lookup,
  also after one that found a match, and \<open>get_next_ram_size\<close> asserts that a
  next tier exists. In the catalog of the scenarios the requirement (4, 12) has
  the ceiling (4, 16), where offering \<open>c\<close> matches, and the resolution ends in
  the AssertionError.
\<close>

theorem largest_tier_match_fails:
  "lookup_type 4 16 scenario_catalog = Inr [''c'']
   \<and> get_correct_instance_size 4 12 scenario_catalog = Some (Inl AssertionError)"
  by (simp add: scenario_catalog_def resolve_eval)

section \<open>The batch run\<close>

lemma scenario_load_disks:
  "load_storage_records_from_csv scenario_disk_table = Inr scenario_disks"
  by (simp add: load_storage_records_from_csv_def scenario_disk_table_def scenario_disks_def
        get_csv_column_title_def py_lower_def py_strip_def is_space_def cell_def)

lemma unnamed_load_disks:
  "load_storage_records_from_csv unnamed_disk_table = Inr []"
  by (simp add: load_storage_records_from_csv_def unnamed_disk_table_def
        get_csv_column_title_def py_lower_def py_strip_def is_space_def cell_def)

lemma find_too_large:
  "find_aws_instance a get_price storage_price
     \<lparr>VM = ''db01'', CPUs = 8, host_RAM = 33, OS = ''Microsoft Windows Server 2016''\<rparr>
     disks scenario_catalog = Some (Inl ValueError)"
  by (simp add: find_aws_instance_def scenario_catalog_def resolve_eval)

lemma scenario_collect:
  "collect_results exact_arith no_price (Inr (2 / 25)) scenario_disks scenario_catalog scenario_hosts []
     = Some [unpriced_record]"
  by (simp add: scenario_hosts_def process_host_def find_unpriced find_too_large)

lemma scenario_main:
  "main exact_arith no_price (Inr (2 / 25)) scenario_catalog scenario_cpu_table scenario_disk_table
     = Some (Inr \<lparr>processed_host_records = [unpriced_record],
                  invalid_instance_types_count = []\<rparr>)"
proof -
  have "scenario_hosts \<noteq> []" "scenario_disks \<noteq> []"
    by (simp_all add: scenario_hosts_def scenario_disks_def)
  then show ?thesis
    using scenario_minimum
    by (simp add: main_def scenario_load_hosts scenario_process_ram
          scenario_load_disks scenario_collect)
qed

lemma main_tally_empty:
  "main a get_price storage_price types cpu_table disk_table = Some (Inr r)
     \<Longrightarrow> invalid_instance_types_count r = []"
  unfolding main_def
  by (simp split: sum.splits if_splits option.splits) auto

lemma unnamed_main:
  "main exact_arith no_price (Inr (2 / 25)) scenario_catalog scenario_cpu_table unnamed_disk_table
     = Some (Inl 1)"
  using scenario_minimum
  by (simp add: unnamed_load_disks main_def scenario_load_hosts scenario_process_ram)

text \<open>
  C5. The claim: the tally reported at the end of the run counts every pricing
  attempt that was unavailable. In the scenario run the on-demand pricing of
  offering \<open>a\<close> for the first host is unavailable and is counted in the
  counter passed to \<open>get_least_expensive_option\<close>, which is the local one of
  \<open>find_aws_instance\<close>; the run completes with one record and the tally of
  \<open>main\<close> is empty.
\<close>

theorem tally_never_written:
  "get_least_expensive_option no_price [''a''] (OS scenario_host) ''onDemand'' []
     = (((None, None), [''a'']), [(''a'', 1)])
   \<and> main exact_arith no_price (Inr (2 / 25)) scenario_catalog scenario_cpu_table scenario_disk_table
     = Some (Inr \<lparr>processed_host_records = [unpriced_record],
                  invalid_instance_types_count = []\<rparr>)"
  by (simp add: scenario_main)
     (simp add: get_least_expensive_option_def no_price_def scenario_host_def
        counter_incr_def counter_get_def)

text \<open>
  C8. The claim: with a disk table that lacks a required column the run is not
  aborted and still produces results. The header of \<open>unnamed_disk_table\<close> has
  no \<open>VM\<close> column: the loader returns no records, and \<open>main\<close> returns 1,
  although the same run with the complete disk table produces the record of
  the first host.
\<close>

theorem missing_disk_column_aborts:
  "load_storage_records_from_csv unnamed_disk_table = Inr []
   \<and> main exact_arith no_price (Inr (2 / 25)) scenario_catalog scenario_cpu_table unnamed_disk_table
       = Some (Inl 1)
   \<and> main exact_arith no_price (Inr (2 / 25)) scenario_catalog scenario_cpu_table scenario_disk_table
       = Some (Inr \<lparr>processed_host_records = [unpriced_record],
                    invalid_instance_types_count = []\<rparr>)"
  using unnamed_load_disks unnamed_main scenario_main by blast

lemma find_column_lacking:
  "list_all (\<lambda>v. \<not> str_contains (py_lower title) (py_strip (py_lower v))) title_row
     \<Longrightarrow> find_column title column title_row = None"
  by (induction title_row arbitrary: column) auto

lemma find_titles_lacking:
  "list_all (\<lambda>title. list_all (\<lambda>v. \<not> str_contains (py_lower title) (py_strip (py_lower v)))
                        title_row) titles
     \<Longrightarrow> find_titles title_row titles = Inl ValueError"
  by (induction titles) (auto simp: find_column_lacking)

lemma get_csv_column_title_lacking:
  "lacks_column title_row titles \<Longrightarrow> get_csv_column_title title_row titles = Inl ValueError"
  by (simp add: lacks_column_def get_csv_column_title_def find_titles_lacking)

lemma find_titles_error:
  "find_titles title_row titles = Inl e \<Longrightarrow> e = ValueError"
  by (induction titles) (auto split: option.splits)

lemma get_csv_column_title_error:
  "get_csv_column_title title_row titles = Inl e \<Longrightarrow> title_row \<noteq> [] \<Longrightarrow> titles \<noteq> []
     \<Longrightarrow> e = ValueError"
  by (auto simp: get_csv_column_title_def dest: find_titles_error)

lemma load_storage_lacking:
  assumes "lacks_column header [''Capacity MB'', ''Capacity MiB'', ''Capacity'']
           \<or> lacks_column header [''VM'']"
  shows "load_storage_records_from_csv (header # rows) = Inr []"
proof -
  have ne: "header \<noteq> []"
    using assms by (auto simp: lacks_column_def)
  show ?thesis
  proof (cases "get_csv_column_title header [''Capacity MB'', ''Capacity MiB'', ''Capacity'']")
    case (Inl e)
    then have "e = ValueError"
      using get_csv_column_title_error ne by blast
    then show ?thesis
      using Inl by (simp add: load_storage_records_from_csv_def)
  next
    case (Inr c)
    then have "lacks_column header [''VM'']"
      using assms get_csv_column_title_lacking by fastforce
    then have "get_csv_column_title header [''VM''] = Inl ValueError"
      by (rule get_csv_column_title_lacking)
    then show ?thesis
      using Inr by (simp add: load_storage_records_from_csv_def)
  qed
qed

lemma main_without_disks:
  "load_storage_records_from_csv disk_table = Inr []
     \<Longrightarrow> main a get_price storage_price types cpu_table disk_table = Some (Inl 1)"
  unfolding main_def by (simp split: sum.splits)

text \<open>
  C8, as the code has it: when the header of the disk table lacks the capacity
  column or the \<open>VM\<close> column, the loader raises nothing and returns no
  storage records, and \<open>main\<close> then stops with \<open>return 1\<close> before any host is
  processed.
\<close>

theorem missing_disk_column_stops_run:
  assumes "lacks_column header [''Capacity MB'', ''Capacity MiB'', ''Capacity'']
           \<or> lacks_column header [''VM'']"
  shows "load_storage_records_from_csv (header # rows) = Inr []
         \<and> main a get_price storage_price types cpu_table (header # rows) = Some (Inl 1)"
  using load_storage_lacking [OF assms] main_without_disks by blast

theorem missing_disk_column_stops_run_witness:
  "lacks_column [''Disk'', ''Capacity MB''] [''VM'']
   \<and> load_storage_records_from_csv unnamed_disk_table = Inr []
   \<and> main exact_arith no_price (Inr (2 / 25)) scenario_catalog scenario_cpu_table unnamed_disk_table
       = Some (Inl 1)"
proof -
  have l: "lacks_column [''Disk'', ''Capacity MB''] [''VM'']"
    by (simp add: lacks_column_def py_lower_def py_strip_def is_space_def)
  have u: "unnamed_disk_table = [''Disk'', ''Capacity MB''] # [[''Hard disk 1'', ''1,024'']]"
    by (simp add: unnamed_disk_table_def)
  show ?thesis
    using missing_disk_column_stops_run [OF disjI2 [OF l], of "[[''Hard disk 1'', ''1,024'']]"
        exact_arith no_price "Inr (2 / 25)" scenario_catalog scenario_cpu_table] l
    unfolding u by blast
qed

section \<open>Sufficiency of the resolved offerings\<close>

lemma bisect_left_loop_upper:
  "sorted a \<Longrightarrow> lo \<le> hi \<Longrightarrow> hi \<le> length a
   \<Longrightarrow> (\<forall>i. hi \<le> i \<and> i < length a \<longrightarrow> x \<le> a ! i)
   \<Longrightarrow> bisect_left_loop a x lo hi \<le> hi
       \<and> (\<forall>i. bisect_left_loop a x lo hi \<le> i \<and> i < length a \<longrightarrow> x \<le> a ! i)"
proof (induction a x lo hi rule: bisect_left_loop.induct)
  case (1 a x lo hi)
  show ?case
  proof (cases "lo < hi")
    case False
    then show ?thesis
      using "1.prems" by (subst (1 2) bisect_left_loop.simps) simp
  next
    case True
    define mid where "mid = (lo + hi) div 2"
    have m: "lo \<le> mid" "mid < hi"
      using True by (simp_all add: mid_def)
    show ?thesis
    proof (cases "a ! mid < x")
      case less: True
      have "bisect_left_loop a x (mid + 1) hi \<le> hi
          \<and> (\<forall>i. bisect_left_loop a x (mid + 1) hi \<le> i \<and> i < length a \<longrightarrow> x \<le> a ! i)"
        using "1.IH"(1) [OF True mid_def less] "1.prems" m by simp
      moreover have "bisect_left_loop a x lo hi = bisect_left_loop a x (mid + 1) hi"
        using True less by (subst bisect_left_loop.simps) (simp add: mid_def Let_def)
      ultimately show ?thesis by simp
    next
      case geq: False
      have up: "\<forall>i. mid \<le> i \<and> i < length a \<longrightarrow> x \<le> a ! i"
      proof (intro allI impI)
        fix i assume i: "mid \<le> i \<and> i < length a"
        then have "a ! mid \<le> a ! i"
          using "1.prems"(1) by (simp add: sorted_nth_mono)
        then show "x \<le> a ! i" using geq by simp
      qed
      have "bisect_left_loop a x lo mid \<le> mid
          \<and> (\<forall>i. bisect_left_loop a x lo mid \<le> i \<and> i < length a \<longrightarrow> x \<le> a ! i)"
        using "1.IH"(2) [OF True mid_def geq] "1.prems" m up by simp
      moreover have "bisect_left_loop a x lo hi = bisect_left_loop a x lo mid"
        using True geq by (subst bisect_left_loop.simps) (simp add: mid_def Let_def)
      ultimately show ?thesis using m by simp
    qed
  qed
qed

lemma find_greater_than_or_equal_sound:
  assumes "sorted a" and "find_greater_than_or_equal a key = Inr v"
  shows "key \<le> v \<and> v \<in> set a"
proof -
  define r where "r = bisect_left a key"
  have "\<forall>i. length a \<le> i \<and> i < length a \<longrightarrow> key \<le> a ! i"
    by auto
  then have "r \<le> length a \<and> (\<forall>i. r \<le> i \<and> i < length a \<longrightarrow> key \<le> a ! i)"
    unfolding r_def bisect_left_def
    using bisect_left_loop_upper [OF assms(1), of 0 "length a" key] by blast
  moreover have "r \<noteq> length a" "v = a ! r"
    using assms(2) by (auto simp: find_greater_than_or_equal_def r_def Let_def split: if_splits)
  ultimately show ?thesis by auto
qed

lemma index_of_Some:
  "index_of xs x = Some i \<Longrightarrow> i < length xs \<and> xs ! i = x"
  by (induction xs arbitrary: i) (auto split: if_splits)

lemma get_next_ram_size_larger:
  assumes "sorted sizes" and "get_next_ram_size sizes ram = Inr next_ram"
  shows "ram \<le> next_ram"
proof -
  from assms(2) obtain current where
    c: "index_of sizes ram = Some current" "current + 1 < length sizes"
       "next_ram = sizes ! (current + 1)"
    by (auto simp: get_next_ram_size_def split: if_splits option.splits)
  have "sizes ! current \<le> sizes ! (current + 1)"
    using assms(1) c(2) by (simp add: sorted_nth_mono)
  then show ?thesis
    using index_of_Some [OF c(1)] c(3) by simp
qed

lemma lookup_type_exact:
  "lookup_type cpu ram types = Inr found \<Longrightarrow> i \<in> set found
     \<Longrightarrow> \<exists>t\<in>set types. type t = i \<and> CPU t = cpu \<and> RAM t = ram"
  by (auto simp: lookup_type_def split: if_splits)


lemma size_loop_sufficient_aux:
  "size_loop min_cpu min_ram sizes types = Some y \<Longrightarrow>
   sorted sizes \<longrightarrow> ram \<le> min_ram \<longrightarrow>
     (\<forall>found. y = Inr found \<longrightarrow>
        (\<forall>i\<in>set found. \<exists>t\<in>set types. type t = i \<and> CPU t = min_cpu \<and> ram \<le> RAM t))"
proof (induct min_cpu min_ram sizes types y rule: size_loop.raw_induct [rotated 1, consumes 1])
  case (1 loop min_cpu min_ram sizes types y)
  note IH = "1"(1) and body = "1"(2)
  show ?case
  proof (intro impI allI ballI)
    fix found i
    assume s: "sorted sizes" and r: "ram \<le> min_ram" and y: "y = Inr found"
      and i: "i \<in> set found"
    from body y obtain fnd next_ram min_ram' where
      l: "lookup_type min_cpu min_ram types = Inr fnd" and
      n: "get_next_ram_size sizes min_ram = Inr next_ram" and
      g: "find_greater_than_or_equal sizes next_ram = Inr min_ram'" and
      e: "(if fnd = [] then loop min_cpu min_ram' sizes types else Some (Inr fnd))
            = Some (Inr found)"
      by (auto split: sum.splits)
    show "\<exists>t\<in>set types. type t = i \<and> CPU t = min_cpu \<and> ram \<le> RAM t"
    proof (cases "fnd = []")
      case True
      have "ram \<le> min_ram'"
        using get_next_ram_size_larger [OF s n] find_greater_than_or_equal_sound [OF s g] r
        by simp
      moreover have "loop min_cpu min_ram' sizes types = Some (Inr found)"
        using e True by simp
      ultimately show ?thesis
        using IH s i by blast
    next
      case False
      then have "fnd = found" using e by simp
      then show ?thesis
        using lookup_type_exact [OF l] r i by blast
    qed
  qed
qed

lemma size_loop_sufficient:
  assumes "size_loop min_cpu min_ram sizes types = Some (Inr found)"
    and "sorted sizes" and "ram \<le> min_ram" and "i \<in> set found"
  shows "\<exists>t\<in>set types. type t = i \<and> CPU t = min_cpu \<and> ram \<le> RAM t"
  using size_loop_sufficient_aux [OF assms(1), of ram] assms(2-) by blast

lemma sorted_extract: "sorted (extract_list_from_instance_types key types)"
  by (simp add: extract_list_from_instance_types_def)

text \<open>
  C4. Every offering identifier that the size resolution returns names an
  offering of the catalog whose vCPU count is at least the CPU requirement and
  whose memory size is at least the RAM requirement.
\<close>

theorem resolved_offerings_sufficient:
  assumes "get_correct_instance_size cpu ram types = Some (Inr found)"
    and "i \<in> set found"
  shows "\<exists>t\<in>set types. type t = i \<and> cpu \<le> CPU t \<and> ram \<le> RAM t"
proof -
  from assms(1) obtain min_cpu min_ram where
    c: "find_greater_than_or_equal (extract_list_from_instance_types CPU types) cpu = Inr min_cpu" and
    m: "find_greater_than_or_equal (extract_list_from_instance_types RAM types) ram = Inr min_ram" and
    s: "size_loop min_cpu min_ram (extract_list_from_instance_types RAM types) types
          = Some (Inr found)"
    by (auto simp: get_correct_instance_size_def Let_def split: if_splits sum.splits)
  have "cpu \<le> min_cpu"
    using find_greater_than_or_equal_sound [OF sorted_extract c] by simp
  moreover have "ram \<le> min_ram"
    using find_greater_than_or_equal_sound [OF sorted_extract m] by simp
  ultimately show ?thesis
    using size_loop_sufficient [OF s sorted_extract _ assms(2), of ram] by auto
qed

lemma scenario_3_5: "get_correct_instance_size 3 5 scenario_catalog = Some (Inr [''b''])"
  by (simp add: scenario_catalog_def resolve_eval)

theorem resolved_offerings_sufficient_witness:
  "get_correct_instance_size 3 5 scenario_catalog = Some (Inr [''b''])
   \<and> ''b'' \<in> set [''b'']
   \<and> (\<exists>t\<in>set scenario_catalog. type t = ''b'' \<and> 3 \<le> CPU t \<and> 5 \<le> RAM t)"
proof -
  have m: "''b'' \<in> set [''b'']" by simp
  show ?thesis
    using resolved_offerings_sufficient [OF scenario_3_5 m] scenario_3_5 m by blast
qed

section \<open>The least expensive option\<close>

lemma price_loop_map_of:
  "map_of (fst (price_loop get_price os m instances (prices, bad, cnt))) c
     = (if c \<in> set instances \<and> \<not> unavailable get_price os m c then get_price c os m
        else map_of prices c)"
proof (induction instances arbitrary: prices bad cnt)
  case Nil
  then show ?case by simp
next
  case (Cons a instances)
  show ?case
  proof (cases "unavailable get_price os m a")
    case True
    then have "price_loop get_price os m (a # instances) (prices, bad, cnt)
        = price_loop get_price os m instances (prices, bad @ [a], counter_incr cnt a)"
      by (simp add: unavailable_def Let_def)
    then show ?thesis
      using Cons.IH [of prices "bad @ [a]" "counter_incr cnt a"] True by auto
  next
    case False
    then obtain p where p: "get_price a os m = Some p" "p \<noteq> 0"
      by (auto simp: unavailable_def)
    then have "price_loop get_price os m (a # instances) (prices, bad, cnt)
        = price_loop get_price os m instances (AList.update a p prices, bad, cnt)"
      by (simp add: Let_def)
    then show ?thesis
      using Cons.IH [of "AList.update a p prices" bad cnt] False p
      by (auto simp: update_conv')
  qed
qed

lemma price_loop_distinct:
  "distinct (map fst prices)
     \<Longrightarrow> distinct (map fst (fst (price_loop get_price os m instances (prices, bad, cnt))))"
proof (induction instances arbitrary: prices bad cnt)
  case Nil
  then show ?case by simp
next
  case (Cons a instances)
  show ?case
  proof (cases "get_price a os m = None \<or> get_price a os m = Some 0")
    case True
    then show ?thesis
      using Cons.IH [OF Cons.prems, of "bad @ [a]" "counter_incr cnt a"]
      by (simp add: Let_def)
  next
    case False
    then show ?thesis
      using Cons.IH [of "AList.update a (the (get_price a os m)) prices" bad cnt] Cons.prems
      by (auto simp: Let_def distinct_update)
  qed
qed

lemma sort_key_head_least:
  assumes "sort_key f xs = x # rest"
  shows "x \<in> set xs \<and> (\<forall>y\<in>set xs. f x \<le> f y)"
proof -
  have s: "sorted (map f (x # rest))"
    using assms sorted_sort_key [of f xs] by simp
  have e: "set (x # rest) = set xs"
    using assms set_sort [of f xs] by simp
  show ?thesis
    using s e by auto
qed

lemma least_expensive_truncated:
  assumes "instances \<noteq> []" and "os \<noteq> []"
    and "c \<in> set instances" and "\<not> unavailable get_price os m c"
  shows "\<exists>t p. fst (fst (get_least_expensive_option get_price instances os m cnt))
            = (Some t, Some (real_of_int (py_int p)))
          \<and> t \<in> set instances \<and> get_price t os m = Some p \<and> p \<noteq> 0
          \<and> (\<forall>c\<in>set instances. \<forall>q. get_price c os m = Some q \<and> q \<noteq> 0
                \<longrightarrow> py_int p \<le> py_int q)"
proof -
  obtain prices bad cnt' where
    loop: "price_loop get_price os m instances ([], [], cnt) = (prices, bad, cnt')"
    by (metis prod_cases3)
  have mp: "map_of prices k
      = (if k \<in> set instances \<and> \<not> unavailable get_price os m k then get_price k os m else None)"
    for k
    using price_loop_map_of [of get_price os m instances "[]" "[]" cnt k] loop by simp
  have dist: "distinct (map fst prices)"
    using price_loop_distinct [of "[]" get_price os m instances "[]" cnt] loop by simp
  have "map_of prices c \<noteq> None"
    using mp [of c] assms(3,4) by (auto simp: unavailable_def)
  then have "prices \<noteq> []"
    by auto
  then obtain x rest where sk: "sort_key (\<lambda>x. py_int (snd x)) prices = x # rest"
    by (metis length_sort list.size(3) neq_Nil_conv length_0_conv)
  obtain t p where x: "x = (t, p)"
    by (cases x)
  have least: "(t, p) \<in> set prices" "\<forall>y\<in>set prices. py_int p \<le> py_int (snd y)"
    using sort_key_head_least [OF sk] x by auto
  have "map_of prices t = Some p"
    using least(1) dist by simp
  then have tp: "t \<in> set instances" "\<not> unavailable get_price os m t" "get_price t os m = Some p"
    using mp [of t] by (auto split: if_splits)
  have "py_int p \<le> py_int q"
    if "k \<in> set instances" "get_price k os m = Some q" "q \<noteq> 0" for k q
  proof -
    have "map_of prices k = Some q"
      using mp [of k] that by (simp add: unavailable_def)
    then have "(k, q) \<in> set prices"
      by (rule map_of_SomeD)
    then show ?thesis
      using least(2) by auto
  qed
  moreover have "fst (fst (get_least_expensive_option get_price instances os m cnt))
      = (Some t, Some (real_of_int (py_int p)))"
    using assms(1,2) loop sk x by (simp add: get_least_expensive_option_def)
  ultimately show ?thesis
    using tp by (auto simp: unavailable_def)
qed

lemma py_int_whole: "p \<in> \<int> \<Longrightarrow> real_of_int (py_int p) = p"
  by (auto simp: py_int_def elim!: Ints_cases)

text \<open>
  C2. The claim: for every non-empty candidate list, every OS string and every
  pricing model with an available candidate, the option returned has a price
  not above that of any other available candidate. With the empty OS string
  the function returns no option at all (its second guard). With the hourly
  rates 0.192 for \<open>b\<close> and 0.096 for \<open>c\<close> it returns \<open>b\<close>: the prices are
  compared by \<open>int(price)\<close>, which is 0 for both, and the stable sort keeps the
  first.
\<close>

theorem least_expensive_counterexample:
  "fst (fst (get_least_expensive_option hourly_prices [''b'', ''c''] [] ''onDemand'' []))
     = (None, None)
   \<and> fst (fst (get_least_expensive_option hourly_prices [''b'', ''c''] ''CentOS'' ''onDemand'' []))
     = (Some ''b'', Some 0)
   \<and> hourly_prices ''b'' ''CentOS'' ''onDemand'' = Some (192 / 1000)
   \<and> hourly_prices ''c'' ''CentOS'' ''onDemand'' = Some (96 / 1000)
   \<and> (96 / 1000 :: real) < 192 / 1000"
  by (simp add: get_least_expensive_option_def hourly_prices_def py_int_def)

lemma least_expensive_whole_dollars_aux:
  assumes "instances \<noteq> []" and "os \<noteq> []"
    and "\<exists>c\<in>set instances. \<not> unavailable get_price os pricing_model c"
    and "\<forall>c\<in>set instances. \<forall>p. get_price c os pricing_model = Some p \<longrightarrow> p \<in> \<int>"
  shows "\<exists>t p. fst (fst (get_least_expensive_option get_price instances os pricing_model cnt))
            = (Some t, Some p)
          \<and> t \<in> set instances \<and> get_price t os pricing_model = Some p \<and> p \<noteq> 0
          \<and> (\<forall>c\<in>set instances. \<forall>q. get_price c os pricing_model = Some q \<and> q \<noteq> 0
                \<longrightarrow> p \<le> q)"
proof -
  from assms(3) obtain c where c: "c \<in> set instances" "\<not> unavailable get_price os pricing_model c"
    by blast
  from least_expensive_truncated [OF assms(1,2) c, of cnt] obtain t p where
    r: "fst (fst (get_least_expensive_option get_price instances os pricing_model cnt))
          = (Some t, Some (real_of_int (py_int p)))" and
    t: "t \<in> set instances" "get_price t os pricing_model = Some p" "p \<noteq> 0" and
    l: "\<forall>c\<in>set instances. \<forall>q. get_price c os pricing_model = Some q \<and> q \<noteq> 0
           \<longrightarrow> py_int p \<le> py_int q"
    by blast
  have wp: "real_of_int (py_int p) = p"
    using assms(4) t by (simp add: py_int_whole)
  have "p \<le> q" if "k \<in> set instances" "get_price k os pricing_model = Some q" "q \<noteq> 0" for k q
  proof -
    have "py_int p \<le> py_int q"
      using l that by blast
    then have "real_of_int (py_int p) \<le> real_of_int (py_int q)"
      by simp
    moreover have "real_of_int (py_int q) = q"
      using assms(4) that by (simp add: py_int_whole)
    ultimately show ?thesis
      using wp by simp
  qed
  then show ?thesis
    using r t wp by auto
qed

text \<open>
  C2, as the code has it. With the empty OS string no candidate is returned,
  none is priced and the counter is left as it was. With a non-empty OS string
  and prices that are whole numbers: if some candidate has an available price,
  a candidate is returned with its price, the price is available, and it is at
  most the price of every available candidate.
\<close>

theorem least_expensive_whole_dollars:
  "get_least_expensive_option get_price instances [] pricing_model cnt
     = (((None, None), []), cnt)
   \<and> (instances \<noteq> [] \<and> os \<noteq> []
        \<and> (\<exists>c\<in>set instances. \<not> unavailable get_price os pricing_model c)
        \<and> (\<forall>c\<in>set instances. \<forall>p. get_price c os pricing_model = Some p \<longrightarrow> p \<in> \<int>)
      \<longrightarrow> (\<exists>t p. fst (fst (get_least_expensive_option get_price instances os pricing_model cnt))
                   = (Some t, Some p)
                 \<and> t \<in> set instances \<and> get_price t os pricing_model = Some p \<and> p \<noteq> 0
                 \<and> (\<forall>c\<in>set instances. \<forall>q. get_price c os pricing_model = Some q \<and> q \<noteq> 0
                       \<longrightarrow> p \<le> q)))"
proof -
  have "get_least_expensive_option get_price instances [] pricing_model cnt
      = (((None, None), []), cnt)"
    by (simp add: get_least_expensive_option_def)
  then show ?thesis
    using least_expensive_whole_dollars_aux [of instances os get_price pricing_model cnt]
    by blast
qed

theorem least_expensive_whole_dollars_witness:
  "get_least_expensive_option upfront_prices [''b'', ''c''] [] ''3-year Reserved'' []
     = (((None, None), []), [])
   \<and> [''b'', ''c''] \<noteq> [] \<and> ''CentOS'' \<noteq> []
   \<and> \<not> unavailable upfront_prices ''CentOS'' ''3-year Reserved'' ''b''
   \<and> (\<exists>t p. fst (fst (get_least_expensive_option upfront_prices [''b'', ''c''] ''CentOS''
                        ''3-year Reserved'' [])) = (Some t, Some p)
          \<and> upfront_prices t ''CentOS'' ''3-year Reserved'' = Some p \<and> p \<le> 1500 \<and> p \<le> 1200)
   \<and> fst (fst (get_least_expensive_option upfront_prices [''b'', ''c''] ''CentOS''
                  ''3-year Reserved'' [])) = (Some ''c'', Some 1200)"
proof -
  have h3: "\<exists>c\<in>set [''b'', ''c'']. \<not> unavailable upfront_prices ''CentOS'' ''3-year Reserved'' c"
    by (simp add: unavailable_def upfront_prices_def)
  have h4: "\<forall>c\<in>set [''b'', ''c'']. \<forall>p. upfront_prices c ''CentOS'' ''3-year Reserved'' = Some p
              \<longrightarrow> p \<in> \<int>"
    by (auto simp: upfront_prices_def)
  have b: "upfront_prices ''b'' ''CentOS'' ''3-year Reserved'' = Some 1500"
          "upfront_prices ''c'' ''CentOS'' ''3-year Reserved'' = Some 1200"
    by (simp_all add: upfront_prices_def)
  have u: "\<not> unavailable upfront_prices ''CentOS'' ''3-year Reserved'' ''b''"
    by (simp add: unavailable_def upfront_prices_def)
  note inst = least_expensive_whole_dollars
    [where get_price = upfront_prices and instances = "[''b'', ''c'']" and os = "''CentOS''"
       and pricing_model = "''3-year Reserved''" and cnt = "[]"]
  have e: "get_least_expensive_option upfront_prices [''b'', ''c''] [] ''3-year Reserved'' []
      = (((None, None), []), [])"
    using inst by (rule conjunct1)
  from inst h3 h4 obtain t p where
    r: "fst (fst (get_least_expensive_option upfront_prices [''b'', ''c''] ''CentOS''
                        ''3-year Reserved'' [])) = (Some t, Some p)"
       "upfront_prices t ''CentOS'' ''3-year Reserved'' = Some p"
       "\<forall>c\<in>set [''b'', ''c'']. \<forall>q. upfront_prices c ''CentOS'' ''3-year Reserved'' = Some q \<and> q \<noteq> 0
                \<longrightarrow> p \<le> q"
    by auto
  have "p \<le> 1500" "p \<le> 1200"
    using r(3) b by auto
  moreover have "fst (fst (get_least_expensive_option upfront_prices [''b'', ''c''] ''CentOS''
                  ''3-year Reserved'' [])) = (Some ''c'', Some 1200)"
    by (simp add: get_least_expensive_option_def upfront_prices_def py_int_def)
  ultimately show ?thesis
    using r(1,2) u e by auto
qed

section \<open>The loops return\<close>

text \<open>
  Each round of the loop of the size resolution either returns or moves
  \<open>min_ram\<close> to a strictly larger entry of the ladder, so the resolution, the
  processing of a host and the batch run always return.
\<close>

lemma get_next_ram_size_strict:
  assumes "sorted sizes" and "distinct sizes" and "get_next_ram_size sizes ram = Inr next_ram"
  shows "ram < next_ram"
proof -
  from assms(3) obtain current where
    c: "index_of sizes ram = Some current" "current + 1 < length sizes"
       "next_ram = sizes ! (current + 1)"
    by (auto simp: get_next_ram_size_def split: if_splits option.splits)
  have "sorted_wrt (<) sizes"
    using assms(1,2) by (simp add: strict_sorted_iff)
  then have "sizes ! current < sizes ! (current + 1)"
    using c(2) by (simp add: sorted_wrt_nth_less)
  then show ?thesis
    using index_of_Some [OF c(1)] c(3) by simp
qed

lemma size_loop_returns:
  assumes "sorted sizes" and "distinct sizes"
  shows "\<exists>y. size_loop min_cpu min_ram sizes types = Some y"
proof (induction "card {s \<in> set sizes. min_ram < s}" arbitrary: min_ram rule: less_induct)
  case less
  show ?case
  proof (cases "lookup_type min_cpu min_ram types")
    case (Inl e)
    then show ?thesis by (subst size_loop.simps) simp
  next
    case found: (Inr found)
    show ?thesis
    proof (cases "get_next_ram_size sizes min_ram")
      case (Inl e)
      then show ?thesis using found by (subst size_loop.simps) simp
    next
      case nxt: (Inr next_ram)
      show ?thesis
      proof (cases "find_greater_than_or_equal sizes next_ram")
        case (Inl e)
        then show ?thesis using found nxt by (subst size_loop.simps) simp
      next
        case ge: (Inr min_ram')
        show ?thesis
        proof (cases "found = []")
          case False
          then show ?thesis using found nxt ge by (subst size_loop.simps) simp
        next
          case True
          have up: "min_ram < min_ram'" "min_ram' \<in> set sizes"
            using get_next_ram_size_strict [OF assms nxt]
              find_greater_than_or_equal_sound [OF assms(1) ge] by auto
          have "{s \<in> set sizes. min_ram' < s} \<subset> {s \<in> set sizes. min_ram < s}"
            using up by auto
          then have "card {s \<in> set sizes. min_ram' < s} < card {s \<in> set sizes. min_ram < s}"
            by (simp add: psubset_card_mono)
          then obtain y where "size_loop min_cpu min_ram' sizes types = Some y"
            using less by blast
          then show ?thesis
            using found nxt ge True by (subst size_loop.simps) simp
        qed
      qed
    qed
  qed
qed

lemma distinct_extract: "distinct (extract_list_from_instance_types key types)"
  by (simp add: extract_list_from_instance_types_def)

lemma get_correct_instance_size_returns:
  "\<exists>y. get_correct_instance_size cpu ram types = Some y"
  using size_loop_returns [OF sorted_extract distinct_extract]
  by (simp add: get_correct_instance_size_def Let_def split: sum.splits)

lemma find_aws_instance_returns:
  "\<exists>y. find_aws_instance a get_price storage_price host disks types = Some y"
proof -
  obtain y where "get_correct_instance_size (CPUs host) (host_RAM host) types = Some y"
    using get_correct_instance_size_returns by blast
  then show ?thesis
    by (simp add: find_aws_instance_def Let_def split: sum.splits prod.splits option.splits)
qed

lemma collect_results_returns:
  "\<exists>rs. collect_results a get_price storage_price disks types hosts acc = Some rs"
proof (induction hosts arbitrary: acc)
  case Nil
  then show ?case by simp
next
  case (Cons h hosts)
  obtain y where "process_host a get_price storage_price h disks types = Some y"
    using find_aws_instance_returns [of a get_price storage_price h disks types]
    by (auto simp: process_host_def)
  then show ?case
    using Cons.IH by (cases y) (auto split: option.splits)
qed

lemma main_returns:
  "\<exists>y. main a get_price storage_price types cpu_table disk_table = Some y"
proof -
  have "\<exists>rs. collect_results a get_price storage_price disks types hosts [] = Some rs"
    for disks hosts
    by (rule collect_results_returns)
  then show ?thesis
    unfolding main_def
    by (simp split: sum.splits) (metis option.simps(5))
qed

end
